theory Spec2Isabelle
  imports
    Complex_Main
    "HOL-Library.Char_ord"
    "HOL-Library.List_Lexorder"
    "HOL-Library.Multiset"
begin

section \<open>The task manager of script.js\<close>

text \<open>
  The development embeds the class \<open>TaskManager\<close> of \<open>src/script.js\<close>: the task
  records, the store operations (\<open>loadTasks\<close>, \<open>addTask\<close>, \<open>updateTask\<close>,
  \<open>deleteTask\<close>, \<open>toggleTaskComplete\<close>), the quick-text parser
  (\<open>parseQuickTask\<close>), the filter and sort pipeline (\<open>getFilteredTasks\<close>) and the
  list and calendar projections (\<open>renderListView\<close>, \<open>renderCalendarView\<close>).

  Conventions of the embedding.
  \<^item> A JavaScript string is a \<open>string\<close>, read as ASCII text. Strings are compared with
    \<open><\<close> as JavaScript does, lexicographically by character code, a proper prefix
    being smaller.
  \<^item> What the code reads from its environment is an argument of the model: \<open>now\<close> is the
    value of \<open>Date.now()\<close> (milliseconds since the epoch, also the time value of
    \<open>new Date()\<close>), \<open>rnd\<close> the value of \<open>Math.random()\<close>, \<open>tz\<close> the offset of
    local time from UTC in milliseconds (one fixed offset, no daylight saving). Where one
    operation reads the clock many times, as the list view does, \<open>clock k\<close> is the value
    of its read number \<open>k\<close>.
  \<^item> The number \<open>parseFloat(id)\<close> that the operations look up is a \<open>real option\<close>,
    \<open>None\<close> being NaN, which is \<open>===\<close> to no id.
  \<^item> Rendering into the DOM is left out, except for the notifications of
    \<open>showToast\<close>, which carry the error reports, and for the cells the calendar view
    appends to its container. What the code reads from the page (the search field, the
    sort selector, the fields of the edit dialog) is an argument of the model.
\<close>

subsection \<open>Strings\<close>

definition is_word_char :: "char \<Rightarrow> bool" where
  \<comment> \<open>the class \<open>\w\<close>: letters, digits and the underscore\<close>
  "is_word_char c =
     (let n = (of_char c :: nat)
      in (48 \<le> n \<and> n \<le> 57) \<or> (65 \<le> n \<and> n \<le> 90) \<or> n = 95 \<or> (97 \<le> n \<and> n \<le> 122))"

definition is_space :: "char \<Rightarrow> bool" where
  \<comment> \<open>the ASCII characters that \<open>trim\<close> removes: tab, LF, VT, FF, CR and the blank\<close>
  "is_space c = (let n = (of_char c :: nat) in (9 \<le> n \<and> n \<le> 13) \<or> n = 32)"

definition trim :: "string \<Rightarrow> string" where
  "trim s = rev (dropWhile is_space (rev (dropWhile is_space s)))"

definition lower_char :: "char \<Rightarrow> char" where
  "lower_char c =
     (case map_of (zip ''ABCDEFGHIJKLMNOPQRSTUVWXYZ'' ''abcdefghijklmnopqrstuvwxyz'') c of
        None \<Rightarrow> c
      | Some l \<Rightarrow> l)"

definition toLowerCase :: "string \<Rightarrow> string" where
  "toLowerCase s = map lower_char s"

fun starts_with :: "string \<Rightarrow> string \<Rightarrow> bool" where
  \<comment> \<open>\<open>starts_with p s\<close>: the text \<open>p\<close> stands at the head of \<open>s\<close>\<close>
  "starts_with [] s = True"
| "starts_with (p # ps) [] = False"
| "starts_with (p # ps) (c # cs) = (p = c \<and> starts_with ps cs)"

fun str_includes :: "string \<Rightarrow> string \<Rightarrow> bool" where
  \<comment> \<open>\<open>str_includes s p\<close> is \<open>s.includes(p)\<close>\<close>
  "str_includes [] p = (p = [])"
| "str_includes (c # cs) p = (starts_with p (c # cs) \<or> str_includes cs p)"

fun replace_first :: "string \<Rightarrow> string \<Rightarrow> string" where
  \<comment> \<open>\<open>replace_first s p\<close> is \<open>s.replace(p, '')\<close> for a text \<open>p\<close>: the first occurrence goes\<close>
  "replace_first [] p = []"
| "replace_first (c # cs) p =
     (if starts_with p (c # cs) then drop (length p) (c # cs) else c # replace_first cs p)"

fun remove_all_ci :: "string \<Rightarrow> nat \<Rightarrow> string \<Rightarrow> string" where
  \<comment> \<open>\<open>remove_all_ci p 0 s\<close> is \<open>s.replace(/p/gi, '')\<close> for a lower-case word \<open>p\<close>: the
      matches are taken from left to right without overlap; the counter is the number of
      characters of the current match still to be dropped\<close>
  "remove_all_ci p k [] = []"
| "remove_all_ci p k (c # cs) =
     (if 0 < k then remove_all_ci p (k - 1) cs
      else if p \<noteq> [] \<and> starts_with p (toLowerCase (c # cs))
        then remove_all_ci p (length p - 1) cs
      else c # remove_all_ci p 0 cs)"

fun split_on :: "char \<Rightarrow> string \<Rightarrow> string list" where
  \<comment> \<open>\<open>split_on c s\<close> is \<open>s.split(c)\<close>; the empty string gives one empty piece\<close>
  "split_on sep [] = [[]]"
| "split_on sep (c # cs) =
     (if c = sep then [] # split_on sep cs
      else (case split_on sep cs of
              [] \<Rightarrow> [[c]]
            | w # ws \<Rightarrow> (c # w) # ws))"

subsection \<open>The patterns of the quick-text parser\<close>

definition priority_at :: "char option \<Rightarrow> string \<Rightarrow> (string \<times> string) option" where
  \<comment> \<open>\<open>/\b(high|medium|low) priority\b/i\<close> tried at one position: \<open>prev\<close> is the character
      before it. The result is the matched text and the text of group 1.\<close>
  "priority_at prev s =
     (if (case prev of None \<Rightarrow> False | Some c \<Rightarrow> is_word_char c) then None
      else
        (case filter (\<lambda>w. starts_with (w @ '' priority'') (toLowerCase s)
                        \<and> (case drop (length w + 9) s of [] \<Rightarrow> True | c # _ \<Rightarrow> \<not> is_word_char c))
                [''high'', ''medium'', ''low''] of
           [] \<Rightarrow> None
         | w # _ \<Rightarrow> Some (take (length w + 9) s, take (length w) s)))"

fun priority_match :: "char option \<Rightarrow> string \<Rightarrow> (string \<times> string) option" where
  \<comment> \<open>\<open>text.match(/\b(high|medium|low) priority\b/i)\<close>: the leftmost match\<close>
  "priority_match prev [] = priority_at prev []"
| "priority_match prev (c # cs) =
     (case priority_at prev (c # cs) of
        Some r \<Rightarrow> Some r
      | None \<Rightarrow> priority_match (Some c) cs)"

fun hash_match :: "string \<Rightarrow> string option" where
  \<comment> \<open>\<open>title.match(/#(\w+)/)\<close>: group 1 of the leftmost match; the match itself is
      \<open>#\<close> followed by the group\<close>
  "hash_match [] = None"
| "hash_match (c # cs) =
     (if c = CHR ''#'' \<and> takeWhile is_word_char cs \<noteq> [] then Some (takeWhile is_word_char cs)
      else hash_match cs)"

fun hash_scan :: "bool \<Rightarrow> string \<Rightarrow> string list \<times> string" where
  \<comment> \<open>one pass for \<open>title.match(/#(\w+)/g)\<close> and \<open>title.replace(/#(\w+)/g, '')\<close>: the
      groups of all matches, and the text with the matches taken out. The flag says that
      the position is inside a match, whose characters are passed over.\<close>
  "hash_scan inside [] = ([], [])"
| "hash_scan inside (c # cs) =
     (if inside \<and> is_word_char c then hash_scan True cs
      else if c = CHR ''#'' \<and> takeWhile is_word_char cs \<noteq> [] then
        (case hash_scan True cs of (ws, rest) \<Rightarrow> (takeWhile is_word_char cs # ws, rest))
      else
        (case hash_scan False cs of (ws, rest) \<Rightarrow> (ws, c # rest)))"

subsection \<open>Dates\<close>

text \<open>
  The part of the ECMAScript \<open>Date\<close> object the code uses. A time value is a number of
  milliseconds since 1970-01-01T00:00Z; days are counted from the same day in the
  proleptic Gregorian calendar. Months are numbered from 1 in \<open>days_from_civil\<close> and
  \<open>civil_from_days\<close>, and from 0 where the code sees them.
\<close>

definition msPerDay :: int where
  "msPerDay = 86400000"

definition days_from_civil :: "int \<Rightarrow> int \<Rightarrow> int \<Rightarrow> int" where
  "days_from_civil y m d =
     (let y1 = (if m \<le> 2 then y - 1 else y);
          era = y1 div 400;
          yoe = y1 - era * 400;
          doy = (153 * (if 2 < m then m - 3 else m + 9) + 2) div 5 + d - 1;
          doe = yoe * 365 + yoe div 4 - yoe div 100 + doy
      in era * 146097 + doe - 719468)"

definition civil_from_days :: "int \<Rightarrow> int \<times> int \<times> int" where
  "civil_from_days n =
     (let z = n + 719468;
          era = z div 146097;
          doe = z - era * 146097;
          yoe = (doe - doe div 1460 + doe div 36524 - doe div 146096) div 365;
          doy = doe - (365 * yoe + yoe div 4 - yoe div 100);
          mp = (5 * doy + 2) div 153;
          d = doy - (153 * mp + 2) div 5 + 1;
          m = (if mp < 10 then mp + 3 else mp - 9)
      in (if m \<le> 2 then yoe + era * 400 + 1 else yoe + era * 400, m, d))"

definition digit :: "int \<Rightarrow> char" where
  "digit k = ''0123456789'' ! nat (k mod 10)"

definition pad2 :: "int \<Rightarrow> string" where
  "pad2 n = [digit (n div 10), digit n]"

definition pad4 :: "int \<Rightarrow> string" where
  "pad4 n = [digit (n div 1000), digit (n div 100), digit (n div 10), digit n]"

definition iso_year :: "int \<Rightarrow> string" where
  \<comment> \<open>four digits for the years 0 to 9999, a sign and six digits otherwise\<close>
  "iso_year y =
     (if 0 \<le> y \<and> y \<le> 9999 then pad4 y
      else (if y < 0 then CHR ''-'' else CHR ''+'') # pad2 (\<bar>y\<bar> div 10000) @ pad4 \<bar>y\<bar>)"

definition iso_date :: "int \<times> int \<times> int \<Rightarrow> string" where
  "iso_date ymd = (case ymd of (y, m, d) \<Rightarrow> iso_year y @ ''-'' @ pad2 m @ ''-'' @ pad2 d)"

definition toISODate :: "int \<Rightarrow> string" where
  \<comment> \<open>\<open>new Date(t).toISOString().split('T')[0]\<close>: the UTC calendar date of \<open>t\<close>\<close>
  "toISODate t = iso_date (civil_from_days (t div msPerDay))"

definition new_Date :: "int \<Rightarrow> int \<Rightarrow> int \<Rightarrow> int \<Rightarrow> int" where
  \<comment> \<open>\<open>new Date(year, month, day)\<close>: midnight of that day in local time. A month
      outside 0..11 carries into the year, a day outside the month into the next or the
      previous month, and a year from 0 to 99 means 1900 + year.\<close>
  "new_Date tz year month day =
     (let yr = (if 0 \<le> year \<and> year \<le> 99 then 1900 + year else year)
      in (days_from_civil (yr + month div 12) (month mod 12 + 1) 1 + day - 1) * msPerDay - tz)"

definition getFullYear :: "int \<Rightarrow> int \<Rightarrow> int" where
  "getFullYear tz t = fst (civil_from_days ((t + tz) div msPerDay))"

definition getMonth :: "int \<Rightarrow> int \<Rightarrow> int" where
  "getMonth tz t = fst (snd (civil_from_days ((t + tz) div msPerDay))) - 1"

definition getDate :: "int \<Rightarrow> int \<Rightarrow> int" where
  "getDate tz t = snd (snd (civil_from_days ((t + tz) div msPerDay)))"

definition getDay :: "int \<Rightarrow> int \<Rightarrow> int" where
  \<comment> \<open>the weekday, 0 for Sunday; 1970-01-01 was a Thursday\<close>
  "getDay tz t = ((t + tz) div msPerDay + 4) mod 7"

definition digit_val :: "char \<Rightarrow> int option" where
  "digit_val c =
     (let n = (of_char c :: nat) in if 48 \<le> n \<and> n \<le> 57 then Some (int n - 48) else None)"

fun number_of :: "string \<Rightarrow> int \<Rightarrow> int option" where
  \<comment> \<open>the value of a digit string, \<open>None\<close> when a character is no digit\<close>
  "number_of [] acc = Some acc"
| "number_of (c # cs) acc =
     (case digit_val c of None \<Rightarrow> None | Some v \<Rightarrow> number_of cs (10 * acc + v))"

definition days_in_month :: "int \<Rightarrow> int \<Rightarrow> int" where
  "days_in_month y m =
     (if m = 2 then (if y mod 4 = 0 \<and> (y mod 100 \<noteq> 0 \<or> y mod 400 = 0) then 29 else 28)
      else if m = 4 \<or> m = 6 \<or> m = 9 \<or> m = 11 then 30 else 31)"

definition Date_parse :: "string \<Rightarrow> int option" where
  \<comment> \<open>The time value of \<open>new Date(s)\<close> for a date of the form \<open>YYYY-MM-DD\<close>, the form of
      the dates the application writes: midnight UTC of that day. \<open>None\<close> is the invalid
      date (NaN). What other texts parse to is left to the JavaScript engine by the
      language; the model takes them as invalid.\<close>
  "Date_parse s =
     (if length s = 10 \<and> s ! 4 = CHR ''-'' \<and> s ! 7 = CHR ''-'' then
        (case (number_of (take 4 s) 0, number_of (take 2 (drop 5 s)) 0,
               number_of (drop 8 s) 0) of
           (Some y, Some m, Some d) \<Rightarrow>
             if 1 \<le> m \<and> m \<le> 12 \<and> 1 \<le> d \<and> d \<le> days_in_month y m
             then Some (days_from_civil y m d * msPerDay) else None
         | _ \<Rightarrow> None)
      else None)"

subsection \<open>The quick-text parser\<close>

record task_data =
  td_title :: string
  td_description :: "string option"
  td_priority :: string
  td_category :: string
  td_dueDate :: string
  td_dueTime :: "string option"
  td_tags :: "string list"

text \<open>
  \<open>task_data\<close> is the object \<open>addTask\<close> receives. The quick-text parser fills neither
  \<open>description\<close> nor \<open>dueTime\<close> (\<open>None\<close> is \<open>undefined\<close>); an empty text stands for
  every falsy value of the other fields.
\<close>

definition parseQuickTask :: "int \<Rightarrow> string \<Rightarrow> task_data" where
  \<comment> \<open>\<open>tomorrow.setDate(tomorrow.getDate() + 1)\<close> moves the local date one day on and
      keeps the time of day: with a fixed offset from UTC that is one day later.\<close>
  "parseQuickTask now text =
     (let today = toISODate now;
          (priority, title1) =
             (case priority_match None text of
                Some (m0, m1) \<Rightarrow> (toLowerCase m1, trim (replace_first text m0))
              | None \<Rightarrow> (''medium'', text));
          (category, title2) =
             (case hash_match title1 of
                Some w \<Rightarrow> (toLowerCase w, trim (replace_first title1 (CHR ''#'' # w)))
              | None \<Rightarrow> (''personal'', title1));
          tags = fst (hash_scan False title2);
          title3 = trim (snd (hash_scan False title2));
          (dueDate4, title4) =
             (if str_includes (toLowerCase title3) ''today''
              then (today, trim (remove_all_ci ''today'' 0 title3))
              else ('''', title3));
          (dueDate5, title5) =
             (if str_includes (toLowerCase title4) ''tomorrow''
              then (toISODate (now + msPerDay), trim (remove_all_ci ''tomorrow'' 0 title4))
              else (dueDate4, title4))
      in \<lparr>td_title = title5, td_description = None, td_priority = priority,
          td_category = category, td_dueDate = dueDate5, td_dueTime = None, td_tags = tags\<rparr>)"

subsection \<open>Tasks and the store\<close>

datatype due =
  Text string     \<comment> \<open>a text, as the application writes it; the empty text is no due date\<close>
| Number real     \<comment> \<open>a number, which \<open>loadTasks\<close> keeps when a stored entry holds one\<close>

text \<open>
  \<open>due\<close> is the value of the field \<open>dueDate\<close>. The application itself writes texts
  only; \<open>loadTasks\<close> and \<open>updateTask\<close> store what they are given, of which texts and
  numbers are modelled.
\<close>

definition truthy :: "due \<Rightarrow> bool" where
  \<comment> \<open>the empty text and 0 are falsy\<close>
  "truthy d = (case d of Text x \<Rightarrow> x \<noteq> [] | Number n \<Rightarrow> n \<noteq> 0)"

definition new_Date_of :: "due \<Rightarrow> int option" where
  \<comment> \<open>The time value of \<open>new Date(d)\<close>: a text is parsed; a number is the time value
      itself, cut to a whole number, and invalid beyond the range of time values.\<close>
  "new_Date_of d =
     (case d of
        Text x \<Rightarrow> Date_parse x
      | Number n \<Rightarrow>
          if \<bar>n\<bar> \<le> 8640000000000000 then Some (if 0 \<le> n then \<lfloor>n\<rfloor> else \<lceil>n\<rceil>) else None)"

record task =
  task_id :: real
  title :: string
  description :: string
  completed :: bool
  priority :: string
  category :: string
  dueDate :: due
  dueTime :: string
  tags :: "string list"
  createdAt :: int
  completedAt :: "int option"

text \<open>
  The field \<open>id\<close> is \<open>task_id\<close> here. A \<open>dueDate\<close> that is the empty text is a task
  without a due date, and \<open>completedAt = None\<close> is \<open>null\<close>. The other fields have the
  types the application writes; rounding of the sum \<open>Date.now() + Math.random()\<close> is not
  modelled, ids are only compared.
\<close>

datatype message =
  Title_empty      \<comment> \<open>\<open>'Task title cannot be empty.'\<close>\<close>
| Task_added       \<comment> \<open>\<open>'Task added successfully!'\<close>, with an emoji\<close>
| Task_updated     \<comment> \<open>\<open>'Task updated successfully!'\<close>\<close>
| Task_deleted     \<comment> \<open>\<open>'Task deleted!'\<close>\<close>
| Task_completed   \<comment> \<open>\<open>'Task completed!'\<close>, with an emoji\<close>
| Task_pending     \<comment> \<open>\<open>'Task marked as pending'\<close>\<close>

datatype toast_type = Success | Error

record store =
  tasks :: "task list"
  stored :: "task list option"
  writable :: bool
  toasts :: "(message \<times> toast_type) list"

text \<open>
  \<open>tasks\<close> is \<open>this.tasks\<close>; \<open>stored\<close> is the list last written under the key
  \<open>enhanced-tasks\<close> of the local storage, \<open>writable\<close> says whether \<open>setItem\<close>
  succeeds, and \<open>toasts\<close> is the sequence of calls of \<open>showToast\<close>.
\<close>

definition saveTasks :: "store \<Rightarrow> store" where
  "saveTasks s = (if writable s then s\<lparr>stored := Some (tasks s)\<rparr> else s)"

definition showToast :: "message \<Rightarrow> toast_type \<Rightarrow> store \<Rightarrow> store" where
  "showToast m ty s = s\<lparr>toasts := toasts s @ [(m, ty)]\<rparr>"

fun findIndex :: "('a \<Rightarrow> bool) \<Rightarrow> 'a list \<Rightarrow> nat option" where
  \<comment> \<open>\<open>None\<close> is the result -1\<close>
  "findIndex P [] = None"
| "findIndex P (x # xs) =
     (if P x then Some 0 else (case findIndex P xs of None \<Rightarrow> None | Some i \<Rightarrow> Some (Suc i)))"

definition has_id :: "real option \<Rightarrow> task \<Rightarrow> bool" where
  \<comment> \<open>\<open>t.id === parseFloat(id)\<close>\<close>
  "has_id pid t = (pid = Some (task_id t))"

subsubsection \<open>loadTasks\<close>

datatype raw_tags =
  No_tags                   \<comment> \<open>the field is missing or falsy\<close>
| Tags_text string          \<comment> \<open>a string\<close>
| Tags_array "string list"  \<comment> \<open>an array\<close>
| Tags_other                \<comment> \<open>a truthy value that is neither: it has no \<open>split\<close>\<close>

record raw_task =
  r_id :: "real option"
  r_title :: "string option"
  r_text :: "string option"
  r_description :: "string option"
  r_completed :: "bool option"
  r_priority :: "string option"
  r_category :: "string option"
  r_dueDate :: "due option"
  r_date :: "due option"
  r_dueTime :: "string option"
  r_time :: "string option"
  r_tags :: raw_tags
  r_createdAt :: "int option"
  r_completedAt :: "int option"

datatype raw_entry =
  Null_entry          \<comment> \<open>\<open>null\<close>: reading a property of it throws\<close>
| Object raw_task     \<comment> \<open>any other value, with the fields it has\<close>

datatype item =
  No_item                   \<comment> \<open>\<open>getItem\<close> gives \<open>null\<close> or the empty text: \<open>'[]'\<close> is parsed\<close>
| Unparseable               \<comment> \<open>\<open>JSON.parse\<close> throws\<close>
| Not_an_array              \<comment> \<open>the parsed value has no \<open>map\<close>\<close>
| Entries "raw_entry list"  \<comment> \<open>the parsed value is an array\<close>

text \<open>
  \<open>item\<close> is what \<open>JSON.parse\<close> makes of the stored text. A field of an entry is
  \<open>None\<close> when it is missing or \<open>null\<close>, and holds a value of the field's type
  otherwise; the empty text, 0 and \<open>false\<close> are the falsy values that \<open>||\<close> replaces.
\<close>

definition text_or :: "string option \<Rightarrow> string \<Rightarrow> string" where
  \<comment> \<open>\<open>v || d\<close> for a text\<close>
  "text_or v d = (case v of None \<Rightarrow> d | Some x \<Rightarrow> if x = [] then d else x)"

definition due_or :: "due option \<Rightarrow> due \<Rightarrow> due" where
  \<comment> \<open>\<open>v || d\<close> for a due date\<close>
  "due_or v d = (case v of None \<Rightarrow> d | Some x \<Rightarrow> if truthy x then x else d)"

definition load_tags :: "raw_tags \<Rightarrow> string list option" where
  \<comment> \<open>\<open>Array.isArray(task.tags) ? task.tags
        : (task.tags ? task.tags.split(',').map(t => t.trim()) : [])\<close>;
      \<open>None\<close> is the TypeError\<close>
  "load_tags r =
     (case r of
        Tags_array ts \<Rightarrow> Some ts
      | Tags_text x \<Rightarrow> Some (if x = [] then [] else map trim (split_on (CHR '','') x))
      | Tags_other \<Rightarrow> None
      | No_tags \<Rightarrow> Some [])"

definition load_task :: "int \<Rightarrow> real \<Rightarrow> raw_entry \<Rightarrow> task option" where
  \<comment> \<open>the function mapped over the parsed array; \<open>None\<close> when it throws\<close>
  "load_task now rnd e =
     (case e of
        Null_entry \<Rightarrow> None
      | Object r \<Rightarrow>
          (case load_tags (r_tags r) of
             None \<Rightarrow> None
           | Some ts \<Rightarrow>
               Some \<lparr>task_id = (case r_id r of None \<Rightarrow> real_of_int now + rnd
                                 | Some i \<Rightarrow> if i = 0 then real_of_int now + rnd else i),
                     title = text_or (r_title r) (text_or (r_text r) []),
                     description = text_or (r_description r) [],
                     completed = (case r_completed r of None \<Rightarrow> False | Some c \<Rightarrow> c),
                     priority = text_or (r_priority r) ''medium'',
                     category = text_or (r_category r) ''personal'',
                     dueDate = due_or (r_dueDate r) (due_or (r_date r) (Text [])),
                     dueTime = text_or (r_dueTime r) (text_or (r_time r) []),
                     tags = ts,
                     createdAt = (case r_createdAt r of None \<Rightarrow> now
                                  | Some c \<Rightarrow> if c = 0 then now else c),
                     completedAt = (case r_completedAt r of None \<Rightarrow> None
                                    | Some c \<Rightarrow> if c = 0 then None else Some c)\<rparr>))"

fun load_all :: "int \<Rightarrow> (nat \<Rightarrow> real) \<Rightarrow> nat \<Rightarrow> raw_entry list \<Rightarrow> task list option" where
  \<comment> \<open>\<open>saved.map(...)\<close>: the first entry that throws ends it. \<open>rnd i\<close> is the random
      number at entry \<open>i\<close>; the clock is read as \<open>now\<close> at every entry.\<close>
  "load_all now rnd i [] = Some []"
| "load_all now rnd i (e # es) =
     (case load_task now (rnd i) e of
        None \<Rightarrow> None
      | Some t \<Rightarrow> (case load_all now rnd (Suc i) es of None \<Rightarrow> None | Some ts \<Rightarrow> Some (t # ts)))"

definition loadTasks :: "int \<Rightarrow> (nat \<Rightarrow> real) \<Rightarrow> item \<Rightarrow> task list" where
  \<comment> \<open>every exception inside \<open>try\<close> is caught, logged, and answered by \<open>[]\<close>\<close>
  "loadTasks now rnd it =
     (case it of
        No_item \<Rightarrow> []
      | Unparseable \<Rightarrow> []
      | Not_an_array \<Rightarrow> []
      | Entries es \<Rightarrow> (case load_all now rnd 0 es of None \<Rightarrow> [] | Some ts \<Rightarrow> ts))"

definition init_store :: "int \<Rightarrow> (nat \<Rightarrow> real) \<Rightarrow> item \<Rightarrow> bool \<Rightarrow> store" where
  \<comment> \<open>the constructor: \<open>this.tasks = this.loadTasks()\<close>; nothing is written yet\<close>
  "init_store now rnd it w =
     \<lparr>tasks = loadTasks now rnd it, stored = None, writable = w, toasts = []\<rparr>"

subsubsection \<open>addTask, updateTask, deleteTask, toggleTaskComplete\<close>

definition addTask :: "int \<Rightarrow> real \<Rightarrow> task_data \<Rightarrow> store \<Rightarrow> bool \<times> store" where
  "addTask now rnd taskData s =
     (let task = \<lparr>task_id = real_of_int now + rnd,
                  title = trim (td_title taskData),
                  description = (case td_description taskData of None \<Rightarrow> [] | Some d \<Rightarrow> trim d),
                  completed = False,
                  priority = (if td_priority taskData = [] then ''medium'' else td_priority taskData),
                  category = (if td_category taskData = [] then ''personal'' else td_category taskData),
                  dueDate = Text (td_dueDate taskData),
                  dueTime = (case td_dueTime taskData of None \<Rightarrow> [] | Some x \<Rightarrow> x),
                  tags = td_tags taskData,
                  createdAt = now,
                  completedAt = None\<rparr>
      in if title task = [] then (False, showToast Title_empty Error s)
         else (True, showToast Task_added Success (saveTasks (s\<lparr>tasks := tasks s @ [task]\<rparr>))))"

record updates =
  u_id :: "real option"
  u_title :: "string option"
  u_description :: "string option"
  u_completed :: "bool option"
  u_priority :: "string option"
  u_category :: "string option"
  u_dueDate :: "due option"
  u_dueTime :: "string option"
  u_tags :: "string list option"
  u_createdAt :: "int option"
  u_completedAt :: "int option option"

text \<open>
  \<open>updates\<close> is the object spread over the task by \<open>updateTask\<close>: \<open>None\<close> is a
  field the object does not have, which keeps the task's value.
\<close>

definition pick :: "'a option \<Rightarrow> 'a \<Rightarrow> 'a" where
  "pick u old = (case u of None \<Rightarrow> old | Some v \<Rightarrow> v)"

definition merge :: "task \<Rightarrow> updates \<Rightarrow> task" where
  \<comment> \<open>\<open>{ ...task, ...updates }\<close>\<close>
  "merge t u =
     \<lparr>task_id = pick (u_id u) (task_id t),
      title = pick (u_title u) (title t),
      description = pick (u_description u) (description t),
      completed = pick (u_completed u) (completed t),
      priority = pick (u_priority u) (priority t),
      category = pick (u_category u) (category t),
      dueDate = pick (u_dueDate u) (dueDate t),
      dueTime = pick (u_dueTime u) (dueTime t),
      tags = pick (u_tags u) (tags t),
      createdAt = pick (u_createdAt u) (createdAt t),
      completedAt = pick (u_completedAt u) (completedAt t)\<rparr>"

definition updateTask :: "real option \<Rightarrow> updates \<Rightarrow> store \<Rightarrow> bool \<times> store" where
  "updateTask pid upd s =
     (case findIndex (has_id pid) (tasks s) of
        None \<Rightarrow> (False, s)
      | Some i \<Rightarrow>
          (True, showToast Task_updated Success
                   (saveTasks (s\<lparr>tasks := (tasks s)[i := merge (tasks s ! i) upd]\<rparr>))))"

definition deleteTask :: "bool \<Rightarrow> real option \<Rightarrow> store \<Rightarrow> bool \<times> store" where
  \<comment> \<open>\<open>confirmed\<close> is the answer of \<open>window.confirm\<close>\<close>
  "deleteTask confirmed pid s =
     (if \<not> confirmed then (False, s)
      else
        (case findIndex (has_id pid) (tasks s) of
           None \<Rightarrow> (False, s)
         | Some i \<Rightarrow>
             (True, showToast Task_deleted Success
                      (saveTasks (s\<lparr>tasks := take i (tasks s) @ drop (Suc i) (tasks s)\<rparr>)))))"

definition toggle :: "int \<Rightarrow> task \<Rightarrow> task" where
  \<comment> \<open>the two assignments of \<open>toggleTaskComplete\<close> to the task it found\<close>
  "toggle now t =
     t\<lparr>completed := \<not> completed t,
       completedAt := (if \<not> completed t then Some now else None)\<rparr>"

definition toggleTaskComplete :: "int \<Rightarrow> real option \<Rightarrow> store \<Rightarrow> bool \<times> store" where
  \<comment> \<open>\<open>find\<close> gives the first task with the id; the task is changed in place\<close>
  "toggleTaskComplete now pid s =
     (case findIndex (has_id pid) (tasks s) of
        None \<Rightarrow> (False, s)
      | Some i \<Rightarrow>
          (let t = toggle now (tasks s ! i)
           in (True, showToast (if completed t then Task_completed else Task_pending) Success
                       (saveTasks (s\<lparr>tasks := (tasks s)[i := t]\<rparr>)))))"

datatype operation =
  Add int real task_data
| Update "real option" updates
| Delete bool "real option"
| Toggle int "real option"

fun step :: "store \<Rightarrow> operation \<Rightarrow> store" where
  "step s (Add now rnd d) = snd (addTask now rnd d s)"
| "step s (Update pid u) = snd (updateTask pid u s)"
| "step s (Delete c pid) = snd (deleteTask c pid s)"
| "step s (Toggle now pid) = snd (toggleTaskComplete now pid s)"

definition run :: "store \<Rightarrow> operation list \<Rightarrow> store" where
  \<comment> \<open>a sequence of store operations, one after the other\<close>
  "run s ops = foldl step s ops"

subsubsection \<open>handleSaveEdit\<close>

record modal =
  modal_title :: string
  modal_description :: string
  modal_date :: string
  modal_time :: string
  modal_priority :: string
  modal_category :: string
  modal_tags :: string

definition handleSaveEdit :: "task option \<Rightarrow> modal \<Rightarrow> store \<Rightarrow> store" where
  \<comment> \<open>\<open>modal\<close> holds the values of the fields of the edit dialog, and
      \<open>currentEditingTask\<close> is the task \<open>openEditTask\<close> put there\<close>
  "handleSaveEdit currentEditingTask m s =
     (case currentEditingTask of
        None \<Rightarrow> s
      | Some t \<Rightarrow>
          snd (updateTask (Some (task_id t))
                 \<lparr>u_id = None, u_title = Some (modal_title m),
                  u_description = Some (modal_description m), u_completed = None,
                  u_priority = Some (modal_priority m), u_category = Some (modal_category m),
                  u_dueDate = Some (Text (modal_date m)), u_dueTime = Some (modal_time m),
                  u_tags = Some (filter (\<lambda>tag. tag \<noteq> [])
                                   (map trim (split_on (CHR '','') (modal_tags m)))),
                  u_createdAt = None, u_completedAt = None\<rparr> s))"

subsection \<open>Filtering and sorting\<close>

definition priorityOrder :: "string \<Rightarrow> int option" where
  \<comment> \<open>\<open>{ high: 3, medium: 2, low: 1 }\<close>; any other key gives no number\<close>
  "priorityOrder p =
     (if p = ''high'' then Some 3 else if p = ''medium'' then Some 2
      else if p = ''low'' then Some 1 else None)"

definition minus_num :: "int option \<Rightarrow> int option \<Rightarrow> int option" where
  \<comment> \<open>the difference of two numbers, \<open>None\<close> being NaN\<close>
  "minus_num a b = (case (a, b) of (Some x, Some y) \<Rightarrow> Some (x - y) | _ \<Rightarrow> None)"

definition sort_date :: "task \<Rightarrow> int option" where
  \<comment> \<open>\<open>a.dueDate ? new Date(a.dueDate) : new Date(8640000000000000)\<close>\<close>
  "sort_date a =
     (if truthy (dueDate a) then new_Date_of (dueDate a) else Some 8640000000000000)"

definition compare_tasks ::
  "(string \<Rightarrow> string \<Rightarrow> int) \<Rightarrow> string \<Rightarrow> task \<Rightarrow> task \<Rightarrow> int option" where
  \<comment> \<open>the comparison function given to \<open>sort\<close>; \<open>localeCompare\<close> is the collation of
      the browser's locale\<close>
  "compare_tasks localeCompare sortBy a b =
     (if completed a \<and> \<not> completed b then Some 1
      else if \<not> completed a \<and> completed b then Some (- 1)
      else if sortBy = ''priority'' then
        minus_num (priorityOrder (priority b)) (priorityOrder (priority a))
      else if sortBy = ''created'' then Some (createdAt b - createdAt a)
      else if sortBy = ''alphabetical'' then Some (localeCompare (title a) (title b))
      else minus_num (sort_date a) (sort_date b))"

fun insert_sorted :: "('a \<Rightarrow> 'a \<Rightarrow> int option) \<Rightarrow> 'a \<Rightarrow> 'a list \<Rightarrow> 'a list" where
  \<comment> \<open>\<open>x\<close> goes before the first element it does not have to follow; a comparison that
      gives NaN counts as 0\<close>
  "insert_sorted cmp x [] = [x]"
| "insert_sorted cmp x (y # ys) =
     (if (case cmp x y of None \<Rightarrow> 0 | Some v \<Rightarrow> v) \<le> 0 then x # y # ys
      else y # insert_sorted cmp x ys)"

definition array_sort :: "('a \<Rightarrow> 'a \<Rightarrow> int option) \<Rightarrow> 'a list \<Rightarrow> 'a list" where
  \<comment> \<open>\<open>Array.prototype.sort\<close> with a comparison function. The sort is stable; it is
      modelled by the stable insertion sort, with which every stable sort agrees when the
      comparison function is consistent.\<close>
  "array_sort cmp xs = foldr (insert_sorted cmp) xs []"

definition matches_search :: "string \<Rightarrow> task \<Rightarrow> bool" where
  "matches_search searchTerm t =
     (str_includes (toLowerCase (title t)) searchTerm
      \<or> str_includes (toLowerCase (description t)) searchTerm
      \<or> list_ex (\<lambda>tag. str_includes (toLowerCase tag) searchTerm) (tags t))"

definition getFilteredTasks ::
  "(string \<Rightarrow> string \<Rightarrow> int) \<Rightarrow> string \<Rightarrow> string \<Rightarrow> string \<Rightarrow> task list \<Rightarrow> task list" where
  \<comment> \<open>\<open>currentCategory\<close> is the category filter, \<open>search\<close> the value of the search
      field and \<open>sortBy\<close> the value of the sort selector\<close>
  "getFilteredTasks localeCompare currentCategory search sortBy ts =
     (let searchTerm = toLowerCase search;
          filtered1 = (if currentCategory \<noteq> ''all''
                       then filter (\<lambda>t. category t = currentCategory) ts else ts);
          filtered2 = (if searchTerm \<noteq> []
                       then filter (matches_search searchTerm) filtered1 else filtered1)
      in array_sort (compare_tasks localeCompare sortBy) filtered2)"

subsection \<open>The list view\<close>

text \<open>
  Each of the three tests reads the clock for itself: \<open>now\<close> is the value of its
  \<open>new Date()\<close>. The text of today is never a numeral, so that \<open><\<close> and \<open>>\<close> between
  a number and that text compare with NaN and are false, and \<open>===\<close> between them is
  false as well.
\<close>

definition isOverdue :: "int \<Rightarrow> task \<Rightarrow> bool" where
  "isOverdue now t =
     (truthy (dueDate t)
      \<and> (case dueDate t of Text d \<Rightarrow> d < toISODate now | Number n \<Rightarrow> False)
      \<and> \<not> completed t)"

definition isToday :: "int \<Rightarrow> task \<Rightarrow> bool" where
  "isToday now t = (dueDate t = Text (toISODate now))"

definition isUpcoming :: "int \<Rightarrow> task \<Rightarrow> bool" where
  "isUpcoming now t = (case dueDate t of Text d \<Rightarrow> toISODate now < d | Number n \<Rightarrow> False)"

fun filter_reading :: "(int \<Rightarrow> 'a \<Rightarrow> bool) \<Rightarrow> (nat \<Rightarrow> int) \<Rightarrow> nat \<Rightarrow> 'a list \<Rightarrow> 'a list" where
  \<comment> \<open>\<open>filter\<close> with a test that reads the clock once at every element: \<open>k\<close> is the
      number of the read at the first element\<close>
  "filter_reading P clock k [] = []"
| "filter_reading P clock k (x # xs) =
     (if P (clock k) x then x # filter_reading P clock (Suc k) xs
      else filter_reading P clock (Suc k) xs)"

record list_view =
  overdue :: "task list"
  todayTasks :: "task list"
  upcoming :: "task list"
  noDate :: "task list"
  completedTasks :: "task list"

definition renderListView :: "(nat \<Rightarrow> int) \<Rightarrow> task list \<Rightarrow> list_view" where
  \<comment> \<open>The five lists handed to \<open>renderTaskSection\<close>, in the order of the sections. The
      first three filters read the clock once for every task, one filter after the
      other: the reads 0 to \<open>n - 1\<close>, \<open>n\<close> to \<open>2n - 1\<close> and \<open>2n\<close> to \<open>3n - 1\<close> for
      \<open>n\<close> tasks.\<close>
  "renderListView clock ts =
     \<lparr>overdue = filter_reading isOverdue clock 0 ts,
      todayTasks = filter_reading (\<lambda>now t. isToday now t \<and> \<not> completed t) clock (length ts) ts,
      upcoming =
        filter_reading (\<lambda>now t. isUpcoming now t \<and> \<not> completed t) clock (2 * length ts) ts,
      noDate = filter (\<lambda>t. \<not> truthy (dueDate t) \<and> \<not> completed t) ts,
      completedTasks = filter completed ts\<rparr>"

definition buckets :: "list_view \<Rightarrow> task list list" where
  "buckets v = [overdue v, todayTasks v, upcoming v, noDate v, completedTasks v]"

subsection \<open>The calendar view\<close>

datatype cell =
  Day_name string                 \<comment> \<open>an element of class \<open>calendar-day-name\<close>\<close>
| Other_month                     \<comment> \<open>an empty element of class \<open>calendar-day other-month\<close>\<close>
| Day int string bool "task list" \<comment> \<open>a day: its number, \<open>dataset.date\<close>, whether it is
                                      marked \<open>today\<close>, and the tasks appended to it\<close>

definition day_cell :: "int \<Rightarrow> int \<Rightarrow> int \<Rightarrow> int \<Rightarrow> task list \<Rightarrow> int \<Rightarrow> cell" where
  \<comment> \<open>the body of the loop over the days; two dates have the same \<open>toDateString\<close> when
      they lie on the same local day\<close>
  "day_cell tz now year month tasksForMonth day =
     (let date = new_Date tz year month day;
          dateStr = toISODate date
      in Day day dateStr ((date + tz) div msPerDay = (now + tz) div msPerDay)
           (filter (\<lambda>t. dueDate t = Text dateStr) tasksForMonth))"

definition in_month :: "int \<Rightarrow> int \<Rightarrow> int \<Rightarrow> task \<Rightarrow> bool" where
  \<comment> \<open>the filter that gives \<open>tasksForMonth\<close>; an invalid date has no year\<close>
  "in_month tz year month t =
     (if \<not> truthy (dueDate t) then False
      else (case new_Date_of (dueDate t) of
              None \<Rightarrow> False
            | Some taskDate \<Rightarrow> getFullYear tz taskDate = year \<and> getMonth tz taskDate = month))"

definition renderCalendarView :: "int \<Rightarrow> int \<Rightarrow> int \<Rightarrow> task list \<Rightarrow> cell list" where
  \<comment> \<open>the children appended to the container, in order. \<open>calendarDate\<close> is the time
      value of \<open>this.calendarDate\<close>, \<open>ts\<close> is \<open>this.tasks\<close>.\<close>
  "renderCalendarView tz now calendarDate ts =
     (let year = getFullYear tz calendarDate;
          month = getMonth tz calendarDate;
          firstDay = new_Date tz year month 1;
          lastDay = new_Date tz year (month + 1) 0;
          startDayOfWeek = getDay tz firstDay;
          tasksForMonth = filter (in_month tz year month) ts
      in map Day_name [''Sun'', ''Mon'', ''Tue'', ''Wed'', ''Thu'', ''Fri'', ''Sat'']
         @ replicate (nat startDayOfWeek) Other_month
         @ map (day_cell tz now year month tasksForMonth) [1 .. getDate tz lastDay])"

fun cell_tasks :: "cell \<Rightarrow> task list" where
  "cell_tasks (Day n d m ts) = ts"
| "cell_tasks c = []"

subsection \<open>Predicates of the statements\<close>

definition keeps_order :: "task \<Rightarrow> task \<Rightarrow> bool" where
  \<comment> \<open>\<open>a\<close> may stand before \<open>b\<close>: not a completed task before one that is not\<close>
  "keeps_order a b = (completed a \<longrightarrow> completed b)"

definition same_other_fields :: "task \<Rightarrow> task \<Rightarrow> bool" where
  \<comment> \<open>the two tasks agree outside \<open>completed\<close> and \<open>completedAt\<close>\<close>
  "same_other_fields t u =
     (task_id u = task_id t \<and> title u = title t \<and> description u = description t
      \<and> priority u = priority t \<and> category u = category t \<and> dueDate u = dueDate t
      \<and> dueTime u = dueTime t \<and> tags u = tags t \<and> createdAt u = createdAt t)"

definition consistent :: "task \<Rightarrow> bool" where
  \<comment> \<open>\<open>completedAt\<close> is present exactly when the task is completed\<close>
  "consistent t = ((completedAt t \<noteq> None) = completed t)"

fun entry_consistent :: "raw_entry \<Rightarrow> bool" where
  \<comment> \<open>the same for a stored entry, whose \<open>completedAt\<close> 0 is loaded as \<open>null\<close>\<close>
  "entry_consistent Null_entry = True"
| "entry_consistent (Object r) =
     ((r_completedAt r \<noteq> None \<and> r_completedAt r \<noteq> Some 0) = (r_completed r = Some True))"

fun item_consistent :: "item \<Rightarrow> bool" where
  "item_consistent (Entries es) = list_all entry_consistent es"
| "item_consistent it = True"

fun plain_op :: "operation \<Rightarrow> bool" where
  \<comment> \<open>an update is plain when it carries neither \<open>completed\<close> nor \<open>completedAt\<close>, as
      the updates of \<open>handleSaveEdit\<close> are\<close>
  "plain_op (Update pid u) = (u_completed u = None \<and> u_completedAt u = None)"
| "plain_op op = True"

fun loadable :: "raw_entry \<Rightarrow> bool" where
  \<comment> \<open>the entries on which the function mapped by \<open>loadTasks\<close> does not throw\<close>
  "loadable Null_entry = False"
| "loadable (Object r) = (r_tags r \<noteq> Tags_other)"

subsection \<open>Sample inputs\<close>

definition sample_task :: "real \<Rightarrow> string \<Rightarrow> bool \<Rightarrow> string \<Rightarrow> task" where
  \<comment> \<open>a task as \<open>addTask\<close> and \<open>toggleTaskComplete\<close> leave it\<close>
  "sample_task i ttl c d =
     \<lparr>task_id = i, title = ttl, description = [], completed = c, priority = ''medium'',
      category = ''personal'', dueDate = Text d, dueTime = [], tags = [], createdAt = 5,
      completedAt = (if c then Some 7 else None)\<rparr>"

definition sample_now :: int where
  \<comment> \<open>2024-01-30T23:00:00Z\<close>
  "sample_now = 1706655600000"

definition sample_tasks :: "task list" where
  "sample_tasks =
     [sample_task 1 ''paid'' True ''2024-01-31'',
      sample_task 2 ''rent'' False ''2024-01-15'',
      sample_task 3 ''walk'' False [],
      sample_task 4 ''call'' False ''2024-01-30'',
      sample_task 5 ''book'' False ''2024-02-01'']"

definition empty_store :: store where
  "empty_store = \<lparr>tasks = [], stored = None, writable = True, toasts = []\<rparr>"

definition sample_store :: store where
  "sample_store = \<lparr>tasks = sample_tasks, stored = None, writable = True, toasts = []\<rparr>"

definition blank_data :: task_data where
  \<comment> \<open>what \<open>handleDetailedAdd\<close> passes when the title field holds blanks only\<close>
  "blank_data =
     \<lparr>td_title = ''   '', td_description = Some [], td_priority = ''low'',
      td_category = ''personal'', td_dueDate = [], td_dueTime = Some [], td_tags = []\<rparr>"

definition legacy_entry :: raw_task where
  \<comment> \<open>a stored entry that is completed and has no \<open>completedAt\<close>\<close>
  "legacy_entry =
     \<lparr>r_id = Some 1, r_title = Some ''paid'', r_text = None, r_description = None,
      r_completed = Some True, r_priority = None, r_category = None, r_dueDate = None,
      r_date = None, r_dueTime = None, r_time = None, r_tags = Tags_text ''home, bills,home'',
      r_createdAt = Some 5, r_completedAt = None\<rparr>"

definition steady_clock :: "nat \<Rightarrow> int" where
  \<comment> \<open>every read of the clock gives \<open>sample_now\<close>\<close>
  "steady_clock k = sample_now"

definition midnight_clock :: "nat \<Rightarrow> int" where
  \<comment> \<open>the first read is at 2024-01-30T23:59:59.999Z, the later ones at
      2024-01-31T00:00:00.000Z\<close>
  "midnight_clock k = (if k = 0 then 1706659199999 else 1706659200000)"

definition numbered_entry :: raw_task where
  \<comment> \<open>a stored entry whose \<open>dueDate\<close> is the number 20240115\<close>
  "numbered_entry =
     \<lparr>r_id = Some 7, r_title = Some ''tax'', r_text = None, r_description = None,
      r_completed = None, r_priority = None, r_category = None,
      r_dueDate = Some (Number 20240115), r_date = None, r_dueTime = None, r_time = None,
      r_tags = No_tags, r_createdAt = Some 5, r_completedAt = None\<rparr>"

definition no_random :: "nat \<Rightarrow> real" where
  \<comment> \<open>\<open>Math.random()\<close> giving 0 at every call\<close>
  "no_random i = 0"

definition legacy_store :: store where
  "legacy_store = init_store 10 no_random (Entries [Object legacy_entry]) True"

definition stamped_entry :: raw_task where
  \<comment> \<open>a stored entry as \<open>saveTasks\<close> writes it for a completed task\<close>
  "stamped_entry = legacy_entry\<lparr>r_completedAt := Some 7\<rparr>"

definition sample_ops :: "operation list" where
  "sample_ops =
     [Add 11 (1 / 2) (parseQuickTask sample_now ''Call mom tomorrow''),
      Toggle 12 (Some (23 / 2)),
      Update (Some 1)
        \<lparr>u_id = None, u_title = Some ''paid in full'', u_description = None,
         u_completed = None, u_priority = None, u_category = None, u_dueDate = None,
         u_dueTime = None, u_tags = None, u_createdAt = None, u_completedAt = None\<rparr>,
      Toggle 13 (Some 1),
      Delete True (Some (23 / 2))]"

definition completing_update :: updates where
  \<comment> \<open>an update that sets \<open>completed\<close> alone\<close>
  "completing_update =
     \<lparr>u_id = None, u_title = None, u_description = None, u_completed = Some True,
      u_priority = None, u_category = None, u_dueDate = None, u_dueTime = None,
      u_tags = None, u_createdAt = None, u_completedAt = None\<rparr>"

definition milk_store :: store where
  \<comment> \<open>the store after the quick add of one task, whose id is 1\<close>
  "milk_store =
     snd (addTask 1 0 (parseQuickTask sample_now ''Buy milk high priority #shopping today'')
            empty_store)"

definition cleared_title :: modal where
  \<comment> \<open>the edit dialog of that task, saved with the title field emptied\<close>
  "cleared_title =
     \<lparr>modal_title = [], modal_description = [], modal_date = ''2024-01-30'', modal_time = [],
      modal_priority = ''high'', modal_category = ''shopping'', modal_tags = []\<rparr>"

definition utc_plus_1 :: int where
  \<comment> \<open>a local time one hour ahead of UTC\<close>
  "utc_plus_1 = 3600000"

section \<open>Properties\<close>

subsection \<open>Strings and dates\<close>

lemma toISODate_not_empty: "toISODate t \<noteq> []"
  by (simp add: toISODate_def iso_date_def split: prod.split)

lemmas string_simps =
  is_word_char_def is_space_def trim_def toLowerCase_def lower_char_def priority_at_def

lemma sample_today: "toISODate sample_now = ''2024-01-30''"
  by code_simp

subsection \<open>The quick-text parser\<close>

text \<open>
  Claim C1, as the code has it. For the text \<open>Buy milk high priority #shopping today\<close>
  the parser gives the title \<open>Buy milk\<close>, the priority \<open>high\<close>, the category
  \<open>shopping\<close> and the current (UTC) date as due date, and no tag: the first \<open>#word\<close>
  is taken out of the title when it becomes the category, before the tags are collected.
\<close>

theorem parseQuickTask_buy_milk:
  "parseQuickTask now ''Buy milk high priority #shopping today'' =
     \<lparr>td_title = ''Buy milk'', td_description = None, td_priority = ''high'',
      td_category = ''shopping'', td_dueDate = toISODate now, td_dueTime = None,
      td_tags = []\<rparr>"
  by (simp add: parseQuickTask_def string_simps)

theorem parseQuickTask_buy_milk_witness:
  "parseQuickTask sample_now ''Buy milk high priority #shopping today'' =
     \<lparr>td_title = ''Buy milk'', td_description = None, td_priority = ''high'',
      td_category = ''shopping'', td_dueDate = ''2024-01-30'', td_dueTime = None,
      td_tags = []\<rparr>"
  using parseQuickTask_buy_milk [of sample_now] by (simp add: sample_today)

text \<open>
  Claim C1 as stated asks for the tags \<open>[shopping]\<close>; the parser returns none.
\<close>

theorem parseQuickTask_buy_milk_tags:
  "td_tags (parseQuickTask sample_now ''Buy milk high priority #shopping today'')
     \<noteq> [''shopping'']"
  by (simp add: parseQuickTask_def string_simps)

subsection \<open>The list view\<close>

lemma filter_reading_steady:
  assumes "\<forall>j. k \<le> j \<and> j < k + length xs \<longrightarrow> (\<forall>x. P (clock j) x = Q x)"
  shows "filter_reading P clock k xs = filter Q xs"
  using assms
proof (induction xs arbitrary: k)
  case Nil
  then show ?case by simp
next
  case (Cons x xs)
  from Cons.prems have here: "P (clock k) x = Q x"
    by simp
  have "\<forall>j. Suc k \<le> j \<and> j < Suc k + length xs \<longrightarrow> (\<forall>x. P (clock j) x = Q x)"
    using Cons.prems by simp
  from Cons.IH [OF this] here show ?case
    by simp
qed

lemma same_day_tests:
  assumes "toISODate a = toISODate b"
  shows "isOverdue a x = isOverdue b x" and "isToday a x = isToday b x"
    and "isUpcoming a x = isUpcoming b x"
  using assms by (simp_all add: isOverdue_def isToday_def isUpcoming_def split: due.splits)

lemma renderListView_one_day:
  assumes "\<forall>k<3 * length ts. toISODate (clock k) = toISODate (clock 0)"
  shows "renderListView clock ts =
     \<lparr>overdue = filter (isOverdue (clock 0)) ts,
      todayTasks = filter (\<lambda>t. isToday (clock 0) t \<and> \<not> completed t) ts,
      upcoming = filter (\<lambda>t. isUpcoming (clock 0) t \<and> \<not> completed t) ts,
      noDate = filter (\<lambda>t. \<not> truthy (dueDate t) \<and> \<not> completed t) ts,
      completedTasks = filter completed ts\<rparr>"
proof -
  have day: "toISODate (clock j) = toISODate (clock 0)" if "j < 3 * length ts" for j
    using assms that by simp
  have "filter_reading isOverdue clock 0 ts = filter (isOverdue (clock 0)) ts"
  proof (rule filter_reading_steady, intro allI impI)
    fix j x assume "0 \<le> j \<and> j < 0 + length ts"
    then have "toISODate (clock j) = toISODate (clock 0)"
      by (intro day) simp
    then show "isOverdue (clock j) x = isOverdue (clock 0) x"
      by (rule same_day_tests)
  qed
  moreover have
    "filter_reading (\<lambda>now t. isToday now t \<and> \<not> completed t) clock (length ts) ts
      = filter (\<lambda>t. isToday (clock 0) t \<and> \<not> completed t) ts"
  proof (rule filter_reading_steady, intro allI impI)
    fix j x assume "length ts \<le> j \<and> j < length ts + length ts"
    then have "toISODate (clock j) = toISODate (clock 0)"
      by (intro day) simp
    then show "(isToday (clock j) x \<and> \<not> completed x) = (isToday (clock 0) x \<and> \<not> completed x)"
      by (simp add: same_day_tests(2) [of "clock j" "clock 0"])
  qed
  moreover have
    "filter_reading (\<lambda>now t. isUpcoming now t \<and> \<not> completed t) clock (2 * length ts) ts
      = filter (\<lambda>t. isUpcoming (clock 0) t \<and> \<not> completed t) ts"
  proof (rule filter_reading_steady, intro allI impI)
    fix j x assume "2 * length ts \<le> j \<and> j < 2 * length ts + length ts"
    then have "toISODate (clock j) = toISODate (clock 0)"
      by (intro day) simp
    then show
      "(isUpcoming (clock j) x \<and> \<not> completed x) = (isUpcoming (clock 0) x \<and> \<not> completed x)"
      by (simp add: same_day_tests(3) [of "clock j" "clock 0"])
  qed
  ultimately show ?thesis
    by (simp add: renderListView_def)
qed

text \<open>
  Claim C2, as the code has it. When every due date of the list is a text, and every
  read of the clock during the three date filters (one read for each task and filter)
  falls on the same UTC day, the five lists of the list view partition the tasks they
  are made from: together they hold every task as often as the input does, a task of the
  input is in exactly one of the five lists and any other task in none, and a task that
  is not completed and has a due date is in exactly one of overdue, today and upcoming.
  Each list holds the tasks its name says: due before today, today, after today, without
  a due date (all four not completed), and completed.
\<close>

theorem renderListView_partition:
  fixes clock :: "nat \<Rightarrow> int" and ts :: "task list" and t :: task
  defines "v \<equiv> renderListView clock ts"
  defines "today \<equiv> toISODate (clock 0)"
  assumes one_day: "\<forall>k<3 * length ts. toISODate (clock k) = toISODate (clock 0)"
    and texts: "\<forall>u\<in>set ts. \<exists>d. dueDate u = Text d"
  shows
    "mset (overdue v) + mset (todayTasks v) + mset (upcoming v) + mset (noDate v)
        + mset (completedTasks v) = mset ts
     \<and> length (filter (\<lambda>b. t \<in> set b) (buckets v)) = (if t \<in> set ts then 1 else 0)
     \<and> (t \<in> set ts \<and> \<not> completed t \<and> dueDate t \<noteq> Text [] \<longrightarrow>
          length (filter (\<lambda>b. t \<in> set b) [overdue v, todayTasks v, upcoming v]) = 1)
     \<and> (t \<in> set (overdue v)) =
          (t \<in> set ts \<and> (\<exists>d. dueDate t = Text d \<and> d \<noteq> [] \<and> d < today) \<and> \<not> completed t)
     \<and> (t \<in> set (todayTasks v)) = (t \<in> set ts \<and> dueDate t = Text today \<and> \<not> completed t)
     \<and> (t \<in> set (upcoming v)) =
          (t \<in> set ts \<and> (\<exists>d. dueDate t = Text d \<and> today < d) \<and> \<not> completed t)
     \<and> (t \<in> set (noDate v)) = (t \<in> set ts \<and> dueDate t = Text [] \<and> \<not> completed t)
     \<and> (t \<in> set (completedTasks v)) = (t \<in> set ts \<and> completed t)"
proof -
  note tests = isOverdue_def isToday_def isUpcoming_def truthy_def
  have today: "today \<noteq> []"
    unfolding today_def by (rule toISODate_not_empty)
  have v: "v =
     \<lparr>overdue = filter (isOverdue (clock 0)) ts,
      todayTasks = filter (\<lambda>t. isToday (clock 0) t \<and> \<not> completed t) ts,
      upcoming = filter (\<lambda>t. isUpcoming (clock 0) t \<and> \<not> completed t) ts,
      noDate = filter (\<lambda>t. \<not> truthy (dueDate t) \<and> \<not> completed t) ts,
      completedTasks = filter completed ts\<rparr>"
    unfolding v_def using one_day by (rule renderListView_one_day)
  have all: "mset (overdue v) + mset (todayTasks v) + mset (upcoming v) + mset (noDate v)
        + mset (completedTasks v) = mset ts"
    unfolding v using texts today
    by (induction ts) (auto simp: tests today_def)
  have worded: "\<exists>d. dueDate t = Text d" if "t \<in> set ts"
    using texts that by blast
  have one: "length (filter (\<lambda>b. t \<in> set b) (buckets v)) = (if t \<in> set ts then 1 else 0)"
    using today worded by (auto simp: buckets_def v tests today_def)
  have dated: "t \<in> set ts \<and> \<not> completed t \<and> dueDate t \<noteq> Text [] \<longrightarrow>
      length (filter (\<lambda>b. t \<in> set b) [overdue v, todayTasks v, upcoming v]) = 1"
    using worded by (auto simp: v tests)
  have members:
    "(t \<in> set (overdue v)) =
       (t \<in> set ts \<and> (\<exists>d. dueDate t = Text d \<and> d \<noteq> [] \<and> d < today) \<and> \<not> completed t)"
    "(t \<in> set (todayTasks v)) = (t \<in> set ts \<and> dueDate t = Text today \<and> \<not> completed t)"
    "(t \<in> set (upcoming v)) =
       (t \<in> set ts \<and> (\<exists>d. dueDate t = Text d \<and> today < d) \<and> \<not> completed t)"
    "(t \<in> set (noDate v)) = (t \<in> set ts \<and> dueDate t = Text [] \<and> \<not> completed t)"
    "(t \<in> set (completedTasks v)) = (t \<in> set ts \<and> completed t)"
    using worded by (auto simp: v tests today_def)
  from all one dated members show ?thesis
    by blast
qed

theorem renderListView_partition_witness:
  "list_all (\<lambda>k. toISODate (steady_clock k) = toISODate (steady_clock 0))
      [0 ..< 3 * length sample_tasks]
   \<and> list_all (\<lambda>u. \<exists>d. dueDate u = Text d) sample_tasks
   \<and> sample_task 2 ''rent'' False ''2024-01-15'' \<in> set sample_tasks
   \<and> \<not> completed (sample_task 2 ''rent'' False ''2024-01-15'')
   \<and> dueDate (sample_task 2 ''rent'' False ''2024-01-15'') \<noteq> Text []
   \<and> length (filter (\<lambda>b. sample_task 2 ''rent'' False ''2024-01-15'' \<in> set b)
         [overdue (renderListView steady_clock sample_tasks),
          todayTasks (renderListView steady_clock sample_tasks),
          upcoming (renderListView steady_clock sample_tasks)]) = 1
   \<and> buckets (renderListView steady_clock sample_tasks) =
       [[sample_task 2 ''rent'' False ''2024-01-15''],
        [sample_task 4 ''call'' False ''2024-01-30''],
        [sample_task 5 ''book'' False ''2024-02-01''],
        [sample_task 3 ''walk'' False []],
        [sample_task 1 ''paid'' True ''2024-01-31'']]"
proof -
  have one_day:
    "\<forall>k<3 * length sample_tasks. toISODate (steady_clock k) = toISODate (steady_clock 0)"
    by (simp add: steady_clock_def)
  have texts: "\<forall>u\<in>set sample_tasks. \<exists>d. dueDate u = Text d"
    by (simp add: sample_tasks_def sample_task_def)
  have member: "sample_task 2 ''rent'' False ''2024-01-15'' \<in> set sample_tasks"
    by (simp add: sample_tasks_def)
  have open_dated: "\<not> completed (sample_task 2 ''rent'' False ''2024-01-15'')"
    "dueDate (sample_task 2 ''rent'' False ''2024-01-15'') \<noteq> Text []"
    by (simp_all add: sample_task_def)
  have lists: "buckets (renderListView steady_clock sample_tasks) =
       [[sample_task 2 ''rent'' False ''2024-01-15''],
        [sample_task 4 ''call'' False ''2024-01-30''],
        [sample_task 5 ''book'' False ''2024-02-01''],
        [sample_task 3 ''walk'' False []],
        [sample_task 1 ''paid'' True ''2024-01-31'']]"
    by code_simp
  from renderListView_partition [OF one_day texts,
      of "sample_task 2 ''rent'' False ''2024-01-15''"] member open_dated
  have once: "length (filter (\<lambda>b. sample_task 2 ''rent'' False ''2024-01-15'' \<in> set b)
         [overdue (renderListView steady_clock sample_tasks),
          todayTasks (renderListView steady_clock sample_tasks),
          upcoming (renderListView steady_clock sample_tasks)]) = 1"
    by blast
  from one_day have "list_all (\<lambda>k. toISODate (steady_clock k) = toISODate (steady_clock 0))
      [0 ..< 3 * length sample_tasks]"
    by (simp add: list_all_iff)
  moreover from texts have "list_all (\<lambda>u. \<exists>d. dueDate u = Text d) sample_tasks"
    by (simp add: list_all_iff)
  ultimately show ?thesis
    using member open_dated once lists by (intro conjI)
qed

text \<open>
  Claim C2 as stated holds for every task list. A task due on 2024-01-30 and not
  completed is in none of the five lists when the clock passes 00:00 UTC between the
  test for overdue and the test for today; and a stored entry whose \<open>dueDate\<close> is the
  number 20240115 is loaded with that number, and is in none of the five lists at any
  time.
\<close>

theorem renderListView_task_in_no_list:
  "buckets (renderListView midnight_clock [sample_task 4 ''call'' False ''2024-01-30''])
     = [[], [], [], [], []]
   \<and> map dueDate (loadTasks 10 no_random (Entries [Object numbered_entry])) = [Number 20240115]
   \<and> map completed (loadTasks 10 no_random (Entries [Object numbered_entry])) = [False]
   \<and> buckets (renderListView steady_clock
        (loadTasks 10 no_random (Entries [Object numbered_entry]))) = [[], [], [], [], []]"
  by code_simp

subsection \<open>addTask\<close>

text \<open>
  Claim C7. When the title of the input is empty after trimming, \<open>addTask\<close> reports
  the error \<open>Task title cannot be empty.\<close>, returns \<open>false\<close> and changes nothing else:
  the task list, the stored list and the rest of the store are as before.
\<close>

theorem addTask_empty_title_rejected:
  "trim (td_title taskData) = [] \<Longrightarrow>
     addTask now rnd taskData s = (False, s\<lparr>toasts := toasts s @ [(Title_empty, Error)]\<rparr>)
     \<and> tasks (snd (addTask now rnd taskData s)) = tasks s
     \<and> stored (snd (addTask now rnd taskData s)) = stored s"
  by (simp add: addTask_def showToast_def)

theorem addTask_empty_title_rejected_witness:
  "trim (td_title blank_data) = []
   \<and> addTask 11 (1 / 2) blank_data sample_store =
       (False, sample_store\<lparr>toasts := [(Title_empty, Error)]\<rparr>)
   \<and> tasks (snd (addTask 11 (1 / 2) blank_data sample_store)) = sample_tasks"
proof -
  have blank: "trim (td_title blank_data) = []"
    by (simp add: blank_data_def string_simps)
  from addTask_empty_title_rejected [OF blank, of 11 "1 / 2" sample_store] blank
  show ?thesis
    by (simp add: sample_store_def)
qed

subsection \<open>Sorting\<close>

lemma set_insert_sorted: "set (insert_sorted cmp x ys) = insert x (set ys)"
  by (induction ys) auto

lemma compare_tasks_primary:
  "completed a \<Longrightarrow> \<not> completed b \<Longrightarrow> compare_tasks lc sortBy a b = Some 1"
  "\<not> completed a \<Longrightarrow> completed b \<Longrightarrow> compare_tasks lc sortBy a b = Some (- 1)"
  by (simp_all add: compare_tasks_def)

lemma keeps_order_primary:
  assumes "(case compare_tasks lc sortBy a b of None \<Rightarrow> 0 | Some v \<Rightarrow> v) \<le> 0"
  shows "keeps_order a b"
proof (rule ccontr)
  assume "\<not> keeps_order a b"
  then have "compare_tasks lc sortBy a b = Some 1"
    by (simp add: keeps_order_def compare_tasks_primary)
  with assms show False
    by simp
qed

lemma keeps_order_primary_rev:
  assumes "\<not> (case compare_tasks lc sortBy a b of None \<Rightarrow> 0 | Some v \<Rightarrow> v) \<le> 0"
  shows "keeps_order b a"
proof (rule ccontr)
  assume "\<not> keeps_order b a"
  then have "compare_tasks lc sortBy a b = Some (- 1)"
    by (simp add: keeps_order_def compare_tasks_primary)
  with assms show False
    by simp
qed

lemma keeps_order_trans: "keeps_order a b \<Longrightarrow> keeps_order b c \<Longrightarrow> keeps_order a c"
  by (simp add: keeps_order_def)

lemma insert_sorted_keeps_order:
  assumes "sorted_wrt keeps_order ys"
  shows "sorted_wrt keeps_order (insert_sorted (compare_tasks lc sortBy) x ys)"
  using assms
proof (induction ys)
  case Nil
  then show ?case by simp
next
  case (Cons y ys)
  from Cons.prems have tail: "sorted_wrt keeps_order ys"
    and head: "\<forall>z\<in>set ys. keeps_order y z"
    by simp_all
  show ?case
  proof (cases "(case compare_tasks lc sortBy x y of None \<Rightarrow> 0 | Some v \<Rightarrow> v) \<le> 0")
    case True
    then have xy: "keeps_order x y"
      by (rule keeps_order_primary)
    with head have "\<forall>z\<in>set ys. keeps_order x z"
      by (blast intro: keeps_order_trans)
    with xy True Cons.prems show ?thesis
      by simp
  next
    case False
    then have yx: "keeps_order y x"
      by (rule keeps_order_primary_rev)
    with head have "\<forall>z\<in>set (insert_sorted (compare_tasks lc sortBy) x ys). keeps_order y z"
      by (simp add: set_insert_sorted)
    with False Cons.IH [OF tail] show ?thesis
      by simp
  qed
qed

lemma mset_insert_sorted: "mset (insert_sorted cmp x ys) = add_mset x (mset ys)"
  by (induction ys) auto

lemma mset_array_sort: "mset (array_sort cmp xs) = mset xs"
  unfolding array_sort_def by (induction xs) (simp_all add: mset_insert_sorted)

lemma array_sort_keeps_order:
  "sorted_wrt keeps_order (array_sort (compare_tasks lc sortBy) xs)"
  unfolding array_sort_def
  by (induction xs) (simp_all add: insert_sorted_keeps_order)

text \<open>
  Claim C3. In the list \<open>getFilteredTasks\<close> returns, whatever the category filter, the
  search text, the sort mode and the collation are, no completed task stands before a
  task that is not completed.
\<close>

theorem getFilteredTasks_completed_last:
  assumes "i < j" and "j < length (getFilteredTasks lc cat search sortBy ts)"
  shows "\<not> (completed (getFilteredTasks lc cat search sortBy ts ! i)
            \<and> \<not> completed (getFilteredTasks lc cat search sortBy ts ! j))"
proof -
  have "sorted_wrt keeps_order (getFilteredTasks lc cat search sortBy ts)"
    by (simp add: getFilteredTasks_def Let_def array_sort_keeps_order)
  with assms have "keeps_order (getFilteredTasks lc cat search sortBy ts ! i)
      (getFilteredTasks lc cat search sortBy ts ! j)"
    by (simp add: sorted_wrt_iff_nth_less)
  then show ?thesis
    by (simp add: keeps_order_def)
qed

theorem getFilteredTasks_completed_last_witness:
  "(0::nat) < 4
   \<and> 4 < length (getFilteredTasks (\<lambda>a b. 0) ''all'' [] ''date'' sample_tasks)
   \<and> map title (getFilteredTasks (\<lambda>a b. 0) ''all'' [] ''date'' sample_tasks) =
       [''rent'', ''call'', ''book'', ''walk'', ''paid'']
   \<and> \<not> (completed (getFilteredTasks (\<lambda>a b. 0) ''all'' [] ''date'' sample_tasks ! 0)
          \<and> \<not> completed (getFilteredTasks (\<lambda>a b. 0) ''all'' [] ''date'' sample_tasks ! 4))"
proof -
  have titles: "map title (getFilteredTasks (\<lambda>a b. 0) ''all'' [] ''date'' sample_tasks) =
      [''rent'', ''call'', ''book'', ''walk'', ''paid'']"
    by code_simp
  have "length (map title (getFilteredTasks (\<lambda>a b. 0) ''all'' [] ''date'' sample_tasks)) = 5"
    unfolding titles by simp
  then have len: "4 < length (getFilteredTasks (\<lambda>a b. 0) ''all'' [] ''date'' sample_tasks)"
    by simp
  from getFilteredTasks_completed_last [OF _ len, of 0] titles len show ?thesis
    by simp
qed

subsection \<open>Looking a task up by its id\<close>

lemma findIndex_Some:
  "findIndex P xs = Some k \<Longrightarrow> k < length xs \<and> P (xs ! k) \<and> (\<forall>j<k. \<not> P (xs ! j))"
proof (induction xs arbitrary: k)
  case Nil
  then show ?case by simp
next
  case (Cons x xs)
  then show ?case
    by (auto split: if_splits option.splits simp: nth_Cons split: nat.splits)
qed

lemma findIndex_None: "(findIndex P xs = None) = (\<forall>x\<in>set xs. \<not> P x)"
  by (induction xs) (auto split: option.splits)

lemma findIndex_same: "map P xs = map P ys \<Longrightarrow> findIndex P xs = findIndex P ys"
proof (induction xs arbitrary: ys)
  case Nil
  then show ?case by simp
next
  case (Cons x xs)
  then obtain y ys' where "ys = y # ys'" by (cases ys) auto
  with Cons show ?case by auto
qed

lemma findIndex_present: "x \<in> set xs \<Longrightarrow> P x \<Longrightarrow> \<exists>k. findIndex P xs = Some k"
  using findIndex_None [of P xs] by (cases "findIndex P xs") auto

lemma tasks_showToast [simp]: "tasks (showToast m ty s) = tasks s"
  by (simp add: showToast_def)

lemma tasks_saveTasks [simp]: "tasks (saveTasks s) = tasks s"
  by (simp add: saveTasks_def)

subsection \<open>toggleTaskComplete\<close>

lemma toggle_id [simp]: "task_id (toggle now t) = task_id t"
  by (simp add: toggle_def)

lemma toggleTaskComplete_found:
  "findIndex (has_id pid) (tasks s) = Some k \<Longrightarrow>
     toggleTaskComplete now pid s =
       (True, showToast (if \<not> completed (tasks s ! k) then Task_completed else Task_pending)
                Success (saveTasks (s\<lparr>tasks := (tasks s)[k := toggle now (tasks s ! k)]\<rparr>)))"
  by (simp add: toggleTaskComplete_def Let_def toggle_def)

lemma toggleTaskComplete_tasks:
  "findIndex (has_id pid) (tasks s) = Some k \<Longrightarrow>
     tasks (snd (toggleTaskComplete now pid s)) = (tasks s)[k := toggle now (tasks s ! k)]"
  by (simp add: toggleTaskComplete_found)

lemma findIndex_toggled:
  assumes "k < length ts"
  shows "findIndex (has_id pid) (ts[k := toggle now (ts ! k)]) = findIndex (has_id pid) ts"
proof (rule findIndex_same)
  show "map (has_id pid) (ts[k := toggle now (ts ! k)]) = map (has_id pid) ts"
    using assms by (simp add: list_eq_iff_nth_eq nth_list_update has_id_def)
qed

text \<open>
  Claim C10. When the id of a task of the list is toggled, the call succeeds and changes
  the first task \<open>k\<close> with that id, the one \<open>find\<close> returns, in its fields
  \<open>completed\<close> and \<open>completedAt\<close> only: \<open>completed\<close> is negated and \<open>completedAt\<close>
  becomes the time of the call or \<open>null\<close>. The other fields of that task, every other
  task, and the length and order of the list stay as they are.
\<close>

theorem toggleTaskComplete_frame:
  assumes "t \<in> set (tasks s)"
  shows "\<exists>k<length (tasks s).
           task_id (tasks s ! k) = task_id t
         \<and> (\<forall>j<k. task_id (tasks s ! j) \<noteq> task_id t)
         \<and> fst (toggleTaskComplete now (Some (task_id t)) s)
         \<and> tasks (snd (toggleTaskComplete now (Some (task_id t)) s)) =
             (tasks s)[k := (tasks s ! k)\<lparr>completed := \<not> completed (tasks s ! k),
                 completedAt := (if \<not> completed (tasks s ! k) then Some now else None)\<rparr>]
         \<and> length (tasks (snd (toggleTaskComplete now (Some (task_id t)) s))) = length (tasks s)
         \<and> same_other_fields (tasks s ! k)
               (tasks (snd (toggleTaskComplete now (Some (task_id t)) s)) ! k)
         \<and> (\<forall>j<length (tasks s). j \<noteq> k \<longrightarrow>
               tasks (snd (toggleTaskComplete now (Some (task_id t)) s)) ! j = tasks s ! j)"
proof -
  from assms obtain k where k: "findIndex (has_id (Some (task_id t))) (tasks s) = Some k"
    using findIndex_present [of t "tasks s" "has_id (Some (task_id t))"]
    by (auto simp: has_id_def)
  from findIndex_Some [OF k] have first: "k < length (tasks s)"
    "task_id (tasks s ! k) = task_id t" "\<forall>j<k. task_id (tasks s ! j) \<noteq> task_id t"
    by (auto simp: has_id_def)
  have result: "tasks (snd (toggleTaskComplete now (Some (task_id t)) s)) =
      (tasks s)[k := toggle now (tasks s ! k)]"
    by (rule toggleTaskComplete_tasks [OF k])
  have ok: "fst (toggleTaskComplete now (Some (task_id t)) s)"
    by (simp add: toggleTaskComplete_found [OF k])
  have fields: "same_other_fields (tasks s ! k) (toggle now (tasks s ! k))"
    by (simp add: same_other_fields_def toggle_def)
  from first ok fields show ?thesis
    unfolding result by (intro exI [of _ k]) (simp add: toggle_def)
qed

theorem toggleTaskComplete_frame_witness:
  "sample_task 3 ''walk'' False [] \<in> set (tasks sample_store)
   \<and> fst (toggleTaskComplete 9 (Some 3) sample_store)
   \<and> tasks (snd (toggleTaskComplete 9 (Some 3) sample_store)) =
       sample_tasks[2 := (sample_task 3 ''walk'' False [])\<lparr>completed := True,
                                                               completedAt := Some 9\<rparr>]"
proof -
  have member: "sample_task 3 ''walk'' False [] \<in> set (tasks sample_store)"
    by (simp add: sample_store_def sample_tasks_def)
  have id3: "task_id (sample_task 3 ''walk'' False []) = 3"
    by (simp add: sample_task_def)
  from toggleTaskComplete_frame [OF member, of 9]
  obtain k where k: "k < length (tasks sample_store)"
    "task_id (tasks sample_store ! k) = 3"
    "fst (toggleTaskComplete 9 (Some 3) sample_store)"
    "tasks (snd (toggleTaskComplete 9 (Some 3) sample_store)) =
       (tasks sample_store)[k := (tasks sample_store ! k)\<lparr>
          completed := \<not> completed (tasks sample_store ! k),
          completedAt := (if \<not> completed (tasks sample_store ! k) then Some 9 else None)\<rparr>]"
    unfolding id3 by blast
  from k(1) have "k \<in> {0, 1, 2, 3, 4}"
    by (auto simp: sample_store_def sample_tasks_def)
  with k(2) have "k = 2"
    by (auto simp: sample_store_def sample_tasks_def sample_task_def)
  with k(3,4) member show ?thesis
    by (simp add: sample_store_def sample_tasks_def sample_task_def)
qed

text \<open>
  Claim C9, as the code has it. After two calls of \<open>toggleTaskComplete\<close> with the id of
  a task of the list, the task at that place has its former fields, \<open>completed\<close>
  included; its \<open>completedAt\<close> is absent again when it was absent before and the task
  was not completed.
\<close>

theorem toggleTaskComplete_twice:
  fixes s :: store and i :: nat and now1 now2 :: int
  defines "t \<equiv> tasks s ! i"
  defines "s1 \<equiv> snd (toggleTaskComplete now1 (Some (task_id t)) s)"
  defines "s2 \<equiv> snd (toggleTaskComplete now2 (Some (task_id t)) s1)"
  assumes i: "i < length (tasks s)"
  shows "length (tasks s2) = length (tasks s)
       \<and> same_other_fields t (tasks s2 ! i)
       \<and> completed (tasks s2 ! i) = completed t
       \<and> (completedAt t = None \<and> \<not> completed t \<longrightarrow> completedAt (tasks s2 ! i) = None)"
proof -
  let ?pid = "Some (task_id t)"
  from i have "t \<in> set (tasks s)"
    by (simp add: t_def)
  then obtain k where k: "findIndex (has_id ?pid) (tasks s) = Some k"
    using findIndex_present [of t "tasks s" "has_id ?pid"] by (auto simp: has_id_def)
  from findIndex_Some [OF k] have klen: "k < length (tasks s)"
    by simp
  have one: "tasks s1 = (tasks s)[k := toggle now1 (tasks s ! k)]"
    unfolding s1_def by (rule toggleTaskComplete_tasks [OF k])
  have k1: "findIndex (has_id ?pid) (tasks s1) = Some k"
    unfolding one using k klen by (simp add: findIndex_toggled)
  have "tasks s2 = (tasks s1)[k := toggle now2 (tasks s1 ! k)]"
    unfolding s2_def by (rule toggleTaskComplete_tasks [OF k1])
  with klen have two: "tasks s2 = (tasks s)[k := toggle now2 (toggle now1 (tasks s ! k))]"
    by (simp add: one)
  show ?thesis
  proof (cases "i = k")
    case True
    with klen show ?thesis
      by (simp add: two t_def same_other_fields_def toggle_def)
  next
    case False
    with i show ?thesis
      by (simp add: two t_def same_other_fields_def)
  qed
qed

theorem toggleTaskComplete_twice_witness:
  "2 < length (tasks sample_store)
   \<and> completedAt (tasks sample_store ! 2) = None
   \<and> \<not> completed (tasks sample_store ! 2)
   \<and> completedAt (tasks (snd (toggleTaskComplete 9 (Some (task_id (tasks sample_store ! 2)))
          (snd (toggleTaskComplete 8 (Some (task_id (tasks sample_store ! 2)))
             sample_store)))) ! 2) = None
   \<and> same_other_fields (tasks sample_store ! 2)
        (tasks (snd (toggleTaskComplete 9 (Some (task_id (tasks sample_store ! 2)))
          (snd (toggleTaskComplete 8 (Some (task_id (tasks sample_store ! 2)))
             sample_store)))) ! 2)"
proof -
  have place: "2 < length (tasks sample_store)"
    by (simp add: sample_store_def sample_tasks_def)
  have pending: "completedAt (tasks sample_store ! 2) = None"
    "\<not> completed (tasks sample_store ! 2)"
    by (simp_all add: sample_store_def sample_tasks_def sample_task_def)
  from toggleTaskComplete_twice [OF place, of 9 8] place pending show ?thesis
    by blast
qed

text \<open>
  Claim C9 as stated lets \<open>completedAt\<close> be absent after the second call whenever it
  was absent before the first. The task loaded from a stored entry that is completed and
  has no \<open>completedAt\<close> has none before, and has the time of the second call after.
\<close>

theorem toggleTaskComplete_twice_legacy:
  "completedAt (tasks legacy_store ! 0) = None
   \<and> completedAt (tasks (snd (toggleTaskComplete 30 (Some 1)
          (snd (toggleTaskComplete 20 (Some 1) legacy_store)))) ! 0) = Some 30"
  by code_simp

subsection \<open>loadTasks\<close>

lemma load_task_loadable: "loadable e \<Longrightarrow> \<exists>t. load_task now r e = Some t"
  by (cases e) (auto simp: load_task_def load_tags_def split: raw_tags.splits)

lemma load_task_not_loadable: "\<not> loadable e \<Longrightarrow> load_task now r e = None"
  by (cases e) (auto simp: load_task_def load_tags_def)

lemma load_all_loadable:
  "list_all loadable es \<Longrightarrow>
     \<exists>ts. load_all now rnd i es = Some ts \<and> length ts = length es
        \<and> (\<forall>j<length es. load_task now (rnd (i + j)) (es ! j) = Some (ts ! j))"
proof (induction es arbitrary: i)
  case Nil
  then show ?case by simp
next
  case (Cons e es)
  from Cons.prems obtain t where t: "load_task now (rnd i) e = Some t"
    using load_task_loadable [of e now "rnd i"] by auto
  from Cons.prems have "list_all loadable es"
    by simp
  from Cons.IH [OF this, of "Suc i"] obtain ts where ts: "load_all now rnd (Suc i) es = Some ts"
    "length ts = length es"
    "\<forall>j<length es. load_task now (rnd (Suc i + j)) (es ! j) = Some (ts ! j)"
    by blast
  have "\<forall>j<length (e # es). load_task now (rnd (i + j)) ((e # es) ! j) = Some ((t # ts) ! j)"
  proof (intro allI impI)
    fix j assume "j < length (e # es)"
    then show "load_task now (rnd (i + j)) ((e # es) ! j) = Some ((t # ts) ! j)"
      using t ts(3) by (cases j) auto
  qed
  with t ts(1,2) show ?case
    by simp
qed

lemma load_all_not_loadable:
  "\<not> list_all loadable es \<Longrightarrow> load_all now rnd i es = None"
proof (induction es arbitrary: i)
  case Nil
  then show ?case by simp
next
  case (Cons e es)
  then show ?case
    by (cases "loadable e") (auto simp: load_task_not_loadable split: option.splits)
qed

lemma loadTasks_nth:
  assumes "list_all loadable es"
  shows "length (loadTasks now rnd (Entries es)) = length es"
    and "i < length es \<Longrightarrow>
           load_task now (rnd i) (es ! i) = Some (loadTasks now rnd (Entries es) ! i)"
  using load_all_loadable [OF assms, of now rnd 0]
  by (auto simp: loadTasks_def)

lemma load_task_fields:
  assumes "load_task now r0 (Object r) = Some t"
  shows "priority t = text_or (r_priority r) ''medium''"
    and "category t = text_or (r_category r) ''personal''"
    and "load_tags (r_tags r) = Some (tags t)"
  using assms by (auto simp: load_task_def split: option.splits)

text \<open>
  Claim C4, as the code has it. When no entry of the stored array makes the mapped
  function throw, \<open>loadTasks\<close> gives one task for each entry, in order; a missing
  priority becomes \<open>medium\<close>, a missing category \<open>personal\<close>, missing tags the empty
  list; tags stored as text are split at the commas and each piece is trimmed, tags
  stored as an array are taken as they are. Nothing removes a repeated tag. An entry
  that is \<open>null\<close>, or whose tags are neither text nor an array, makes the whole result
  the empty list, and so does a stored text that cannot be parsed or is no array.
\<close>

theorem loadTasks_repairs:
  "(list_all loadable es \<longrightarrow> length (loadTasks now rnd (Entries es)) = length es)
   \<and> (list_all loadable es \<and> i < length es \<and> es ! i = Object r \<longrightarrow>
        (r_priority r = None \<longrightarrow> priority (loadTasks now rnd (Entries es) ! i) = ''medium'')
      \<and> (r_category r = None \<longrightarrow> category (loadTasks now rnd (Entries es) ! i) = ''personal'')
      \<and> (r_tags r = No_tags \<longrightarrow> tags (loadTasks now rnd (Entries es) ! i) = [])
      \<and> (r_tags r = Tags_text x \<and> x \<noteq> [] \<longrightarrow>
           tags (loadTasks now rnd (Entries es) ! i) = map trim (split_on (CHR '','') x))
      \<and> (r_tags r = Tags_array ts \<longrightarrow> tags (loadTasks now rnd (Entries es) ! i) = ts))
   \<and> (\<not> list_all loadable es \<longrightarrow> loadTasks now rnd (Entries es) = [])
   \<and> loadTasks now rnd Unparseable = []
   \<and> loadTasks now rnd Not_an_array = []"
proof (intro conjI impI; (elim conjE)?)
  show "length (loadTasks now rnd (Entries es)) = length es" if "list_all loadable es"
    using that by (rule loadTasks_nth)
  show "loadTasks now rnd (Entries es) = []" if "\<not> list_all loadable es"
    using that by (simp add: loadTasks_def load_all_not_loadable)
  show "loadTasks now rnd Unparseable = []" "loadTasks now rnd Not_an_array = []"
    by (simp_all add: loadTasks_def)
next
  let ?t = "loadTasks now rnd (Entries es) ! i"
  assume "list_all loadable es" "i < length es" "es ! i = Object r"
  then have loaded: "load_task now (rnd i) (Object r) = Some ?t"
    using loadTasks_nth(2) [of es i now rnd] by simp
  note fields = load_task_fields [OF loaded]
  {
    assume "r_priority r = None"
    with fields(1) show "priority ?t = ''medium''"
      by (simp add: text_or_def)
  next
    assume "r_category r = None"
    with fields(2) show "category ?t = ''personal''"
      by (simp add: text_or_def)
  next
    assume "r_tags r = No_tags"
    with fields(3) show "tags ?t = []"
      by (simp add: load_tags_def)
  next
    assume "r_tags r = Tags_text x" "x \<noteq> []"
    with fields(3) show "tags ?t = map trim (split_on (CHR '','') x)"
      by (simp add: load_tags_def)
  next
    assume "r_tags r = Tags_array ts"
    with fields(3) show "tags ?t = ts"
      by (simp add: load_tags_def)
  }
qed

theorem loadTasks_repairs_witness:
  "list_all loadable [Object legacy_entry]
   \<and> r_priority legacy_entry = None
   \<and> r_category legacy_entry = None
   \<and> r_tags legacy_entry = Tags_text ''home, bills,home''
   \<and> length (loadTasks 10 no_random (Entries [Object legacy_entry])) = 1
   \<and> priority (loadTasks 10 no_random (Entries [Object legacy_entry]) ! 0) = ''medium''
   \<and> category (loadTasks 10 no_random (Entries [Object legacy_entry]) ! 0) = ''personal''
   \<and> tags (loadTasks 10 no_random (Entries [Object legacy_entry]) ! 0) =
       map trim (split_on (CHR '','') ''home, bills,home'')"
proof -
  have fields: "r_priority legacy_entry = None" "r_category legacy_entry = None"
    "r_tags legacy_entry = Tags_text ''home, bills,home''"
    by (simp_all add: legacy_entry_def)
  then have ok: "list_all loadable [Object legacy_entry]"
    by simp
  from loadTasks_repairs [of "[Object legacy_entry]" 10 no_random 0 legacy_entry
      "''home, bills,home''"] ok fields
  show ?thesis
    by simp
qed

text \<open>
  Claim C4 as stated has the tags deduplicated. The stored text \<open>home, bills,home\<close> is
  loaded as three tags, \<open>home\<close> twice.
\<close>

theorem loadTasks_keeps_repeated_tags:
  "tags (loadTasks 10 no_random (Entries [Object legacy_entry]) ! 0) =
     [''home'', ''bills'', ''home'']"
  by code_simp

subsection \<open>The completion stamp\<close>

lemma load_task_consistent:
  "entry_consistent e \<Longrightarrow> load_task now r e = Some t \<Longrightarrow> consistent t"
  by (cases e) (auto simp: load_task_def consistent_def split: option.splits if_splits)

lemma load_all_consistent:
  "list_all entry_consistent es \<Longrightarrow> load_all now rnd i es = Some ts \<Longrightarrow>
     list_all consistent ts"
proof (induction es arbitrary: i ts)
  case Nil
  then show ?case by simp
next
  case (Cons e es)
  then show ?case
    by (auto split: option.splits dest: load_task_consistent)
qed

lemma init_store_consistent:
  "item_consistent it \<Longrightarrow> list_all consistent (tasks (init_store now rnd it w))"
  by (cases it) (auto simp: init_store_def loadTasks_def split: option.splits
      dest: load_all_consistent)

lemma toggle_consistent: "consistent (toggle now t)"
  by (simp add: consistent_def toggle_def)

lemma merge_consistent:
  "u_completed u = None \<Longrightarrow> u_completedAt u = None \<Longrightarrow>
     consistent (merge t u) = consistent t"
  by (simp add: consistent_def merge_def pick_def)

lemma list_all_update: "list_all P xs \<Longrightarrow> P y \<Longrightarrow> list_all P (xs[k := y])"
  by (induction xs arbitrary: k) (auto split: nat.splits)

lemma list_all_take: "list_all P xs \<Longrightarrow> list_all P (take k xs)"
  unfolding list_all_iff by (auto dest: in_set_takeD)

lemma list_all_drop: "list_all P xs \<Longrightarrow> list_all P (drop k xs)"
  unfolding list_all_iff by (auto dest: in_set_dropD)

lemma step_consistent:
  assumes "list_all consistent (tasks s)" and "plain_op op"
  shows "list_all consistent (tasks (step s op))"
proof (cases op)
  case (Add now rnd d)
  with assms show ?thesis
    by (simp add: addTask_def Let_def consistent_def)
next
  case (Update pid u)
  show ?thesis
  proof (cases "findIndex (has_id pid) (tasks s)")
    case None
    with Update assms show ?thesis
      by (simp add: updateTask_def)
  next
    case (Some k)
    from findIndex_Some [OF Some] have "k < length (tasks s)"
      by simp
    with assms have "consistent (tasks s ! k)"
      by (simp add: list_all_length)
    with assms Update have "consistent (merge (tasks s ! k) u)"
      by (simp add: merge_consistent)
    with assms Update Some show ?thesis
      by (simp add: updateTask_def list_all_update)
  qed
next
  case (Delete c pid)
  with assms show ?thesis
    by (auto simp: deleteTask_def list_all_take list_all_drop split: option.splits)
next
  case (Toggle now pid)
  with assms show ?thesis
    by (cases "findIndex (has_id pid) (tasks s)")
      (simp_all add: toggleTaskComplete_def Let_def list_all_update toggle_consistent)
qed

lemma run_consistent:
  "list_all consistent (tasks s) \<Longrightarrow> list_all plain_op ops \<Longrightarrow>
     list_all consistent (tasks (run s ops))"
  unfolding run_def
  by (induction ops arbitrary: s) (simp_all add: step_consistent)

text \<open>
  Claim C5, as the code has it. Every task of the store has a \<open>completedAt\<close> exactly
  when it is completed, after a load and any sequence of add, update, toggle and delete
  operations, when the stored entries are so themselves (a stored \<open>completedAt\<close> of 0
  counting as absent, as \<open>loadTasks\<close> reads it) and no update carries \<open>completed\<close> or
  \<open>completedAt\<close>.
\<close>

theorem completedAt_iff_completed:
  "item_consistent it \<Longrightarrow> list_all plain_op ops \<Longrightarrow>
     list_all consistent (tasks (run (init_store now rnd it w) ops))"
  by (rule run_consistent [OF init_store_consistent])

theorem completedAt_iff_completed_witness:
  "item_consistent (Entries [Object stamped_entry])
   \<and> list_all plain_op sample_ops
   \<and> list_all consistent
        (tasks (run (init_store 10 no_random (Entries [Object stamped_entry]) True) sample_ops))
   \<and> map completedAt
        (tasks (run (init_store 10 no_random (Entries [Object stamped_entry]) True) sample_ops))
       = [None]"
proof -
  have stored: "item_consistent (Entries [Object stamped_entry])"
    by (simp add: stamped_entry_def legacy_entry_def)
  have plain: "list_all plain_op sample_ops"
    by (simp add: sample_ops_def)
  have after: "map completedAt
      (tasks (run (init_store 10 no_random (Entries [Object stamped_entry]) True) sample_ops))
       = [None]"
    by code_simp
  from completedAt_iff_completed [OF stored plain, of 10 no_random True] stored plain after
  show ?thesis
    by blast
qed

text \<open>
  Claim C5 as stated holds after every load and every update. A stored entry that is
  completed and has no \<open>completedAt\<close> is loaded as it is, and an update that carries
  \<open>completed\<close> alone leaves \<open>completedAt\<close> as it was.
\<close>

theorem completed_without_completedAt:
  "completed (tasks legacy_store ! 0)
   \<and> completedAt (tasks legacy_store ! 0) = None
   \<and> completed (tasks (snd (updateTask (Some 1) completing_update milk_store)) ! 0)
   \<and> completedAt (tasks (snd (updateTask (Some 1) completing_update milk_store)) ! 0) = None"
  by code_simp

subsection \<open>The title\<close>

lemma addTask_title_not_empty:
  "t \<in> set (tasks (snd (addTask now rnd taskData s))) \<Longrightarrow> t \<notin> set (tasks s) \<Longrightarrow>
     title t \<noteq> [] \<and> title t = trim (td_title taskData)"
  by (auto simp: addTask_def Let_def split: if_splits)

text \<open>
  Claim C6 at a failing input. \<open>addTask\<close> refuses an empty title, but the edit dialog
  does not: saving the dialog of the task \<open>Buy milk\<close> with the title field emptied
  leaves the task in the store with the empty title.
\<close>

theorem handleSaveEdit_empties_title:
  "map title (tasks milk_store) = [''Buy milk'']
   \<and> map title (tasks (handleSaveEdit (Some (tasks milk_store ! 0)) cleared_title milk_store))
       = [[]]"
  by code_simp

subsection \<open>The calendar view\<close>

lemma renderCalendarView_cells:
  fixes tz now calendarDate :: int and ts :: "task list"
  defines "year \<equiv> getFullYear tz calendarDate"
  defines "month \<equiv> getMonth tz calendarDate"
  shows "renderCalendarView tz now calendarDate ts =
     map Day_name [''Sun'', ''Mon'', ''Tue'', ''Wed'', ''Thu'', ''Fri'', ''Sat'']
     @ replicate (nat (getDay tz (new_Date tz year month 1))) Other_month
     @ map (day_cell tz now year month (filter (in_month tz year month) ts))
         [1 .. getDate tz (new_Date tz year (month + 1) 0)]"
  unfolding renderCalendarView_def Let_def year_def month_def by (rule refl)

lemma january_2024:
  "getDay 0 (new_Date 0 2024 0 1) = 1 \<and> getDate 0 (new_Date 0 2024 1 0) = 31
   \<and> getDay utc_plus_1 (new_Date utc_plus_1 2024 0 1) = 1
   \<and> getDate utc_plus_1 (new_Date utc_plus_1 2024 1 0) = 31
   \<and> toISODate (new_Date 0 2024 0 31) = ''2024-01-31''
   \<and> toISODate (new_Date utc_plus_1 2024 0 31) = ''2024-01-30''"
  by code_simp

text \<open>
  Claim C8 at a failing input. One hour ahead of UTC, with January 2024 displayed, the
  cell of day \<open>d\<close> carries the date of the day before, since the local midnight of a day
  lies on the day before in UTC, where \<open>toISOString\<close> reads it. A task due on
  2024-01-31 passes the filter of the month and is attached to no cell; a task due on
  2024-01-15 is attached to the cell of day 16.
\<close>

theorem renderCalendarView_ahead_of_utc:
  "getFullYear utc_plus_1 sample_now = 2024
   \<and> getMonth utc_plus_1 sample_now = 0
   \<and> in_month utc_plus_1 2024 0 (sample_task 6 ''dentist'' False ''2024-01-31'')
   \<and> concat (map cell_tasks (renderCalendarView utc_plus_1 sample_now sample_now
        [sample_task 6 ''dentist'' False ''2024-01-31''])) = []
   \<and> filter (\<lambda>c. cell_tasks c \<noteq> []) (renderCalendarView utc_plus_1 sample_now sample_now
        [sample_task 2 ''rent'' False ''2024-01-15'']) =
       [Day 16 ''2024-01-15'' False [sample_task 2 ''rent'' False ''2024-01-15'']]"
  by code_simp

end
